theory Spec2Isabelle
  imports Complex_Main
begin

section \<open>Values, exceptions and telemetry events\<close>

text \<open>
  The service is a FastAPI application whose handlers and middleware talk to an
  OpenTelemetry SDK.  The embedding keeps the Python code's own control flow and makes
  its effects explicit: the module-level counters, the sequence of telemetry calls
  (metrics, spans, log records) and the wall clock are fields of a state record, and a
  raised exception is the \<open>Inl\<close> branch of a result.

  Python's \<open>int\<close> is \<open>int\<close>.  Python's \<open>float\<close> is idealised as \<open>real\<close>: rounding,
  infinities and NaN are outside the model.  Message texts drop the pictograph that
  prefixes them in the source, and an f-string passed to the logger is kept as its
  template together with the interpolated values.

  A program runs from its first statement to its last without another one running in
  between: requests that overlap in the event loop are outside the model.  What the
  SDK does with a call (batching, export) and the telemetry that the framework's
  automatic instrumentation adds are outside it as well.
\<close>

datatype json =
    JNull
  | JBool bool
  | JInt int
  | JFloat real
  | JStr string
  | JList "json list"
  | JObj "(string \<times> json) list"

datatype py_exn =
    HTTPException int string
  | TypeError
  | KeyError string
  | IndexError

datatype instrument_kind = Counter | Histogram | Gauge

datatype instrument = Instrument instrument_kind string string string

datatype attr_value = AStr string | AInt int | AFloat real | AJson json

datatype level = INFO | ERROR

datatype status_code_t = StatusCode_ERROR

type_synonym tags = "(string \<times> string) list"

datatype event =
    CounterAdd instrument int tags
  | HistogramRecord instrument real tags
  | GaugeSet instrument real
  | SpanStart string
  | SpanEnd string
  | SetAttribute string string attr_value
  | SetStatus string status_code_t string
  | AddEvent string string
  | Log level string "attr_value list"

record request =
  http_method :: string
  url :: string
  path :: string

record response =
  status_code :: int
  body :: json

text \<open>
  \<open>total_requests\<close>, \<open>total_errors\<close> and \<open>active_requests\<close> are the module-level globals
  of the middleware's module; \<open>events\<close> is the telemetry emitted so far, oldest first;
  \<open>clock\<close> is what \<open>time.time()\<close> returns.
\<close>

record state =
  total_requests :: int
  total_errors :: int
  active_requests :: int
  events :: "event list"
  clock :: real

section \<open>Sequencing with exceptions\<close>

type_synonym 'a prog = "state \<Rightarrow> (py_exn + 'a) \<times> state"

definition ret :: "'a \<Rightarrow> 'a prog" where
  "ret x s = (Inr x, s)"

definition raise :: "py_exn \<Rightarrow> 'a prog" where
  "raise e s = (Inl e, s)"

text \<open>Statement sequencing: an exception in the first statement skips the rest.\<close>

definition bnd :: "'a prog \<Rightarrow> ('a \<Rightarrow> 'b prog) \<Rightarrow> 'b prog" where
  "bnd m f s = (case m s of (Inl e, s') \<Rightarrow> (Inl e, s') | (Inr x, s') \<Rightarrow> f x s')"

definition gets :: "(state \<Rightarrow> 'a) \<Rightarrow> 'a prog" where
  "gets f s = (Inr (f s), s)"

definition modify :: "(state \<Rightarrow> state) \<Rightarrow> unit prog" where
  "modify f s = (Inr (), f s)"

definition emit :: "event \<Rightarrow> unit prog" where
  "emit e = modify (\<lambda>s. s\<lparr>events := events s @ [e]\<rparr>)"

subsection \<open>Library calls\<close>

definition time_time :: "real prog" where
  "time_time = gets clock"

text \<open>\<open>time.sleep(d)\<close>: the model lets exactly \<open>d\<close> seconds pass.\<close>

definition time_sleep :: "real \<Rightarrow> unit prog" where
  "time_sleep d = modify (\<lambda>s. s\<lparr>clock := clock s + d\<rparr>)"

text \<open>\<open>int(x)\<close> on a float truncates towards zero.\<close>

definition py_int :: "real \<Rightarrow> int" where
  "py_int x = (if 0 \<le> x then \<lfloor>x\<rfloor> else \<lceil>x\<rceil>)"

fun str_nat :: "nat \<Rightarrow> string" where
  "str_nat n =
     (if n < 10 then [''0123456789'' ! n]
      else str_nat (n div 10) @ [''0123456789'' ! (n mod 10)])"

declare str_nat.simps [simp del]

text \<open>\<open>str(i)\<close> for an \<open>int\<close>.\<close>

definition str_int :: "int \<Rightarrow> string" where
  "str_int i = (if i < 0 then ''-'' @ str_nat (nat (- i)) else str_nat (nat i))"

text \<open>
  A dict is the list of its items, in which no key occurs twice.  \<open>d[k]\<close> raises
  \<open>KeyError\<close> for a missing key; \<open>d.get(k, default)\<close> does not.
\<close>

definition getitem :: "(string \<times> 'v) list \<Rightarrow> string \<Rightarrow> 'v prog" where
  "getitem d k = (case map_of d k of None \<Rightarrow> raise (KeyError k) | Some v \<Rightarrow> ret v)"

definition dict_get :: "(string \<times> 'v) list \<Rightarrow> string \<Rightarrow> 'v \<Rightarrow> 'v" where
  "dict_get d k dflt = (case map_of d k of None \<Rightarrow> dflt | Some v \<Rightarrow> v)"

text \<open>
  \<open>with tracer.start_as_current_span(name) as span: block\<close>.  The context manager ends
  the span on every exit of the block, and an exception of the block goes on to the
  caller.  The span is referred to by its name in the calls made on it.
\<close>

definition start_as_current_span :: "string \<Rightarrow> 'a prog \<Rightarrow> 'a prog" where
  "start_as_current_span name block s =
     (case block (snd (emit (SpanStart name) s)) of
        (r, s') \<Rightarrow> (r, snd (emit (SpanEnd name) s')))"

definition set_attribute :: "string \<Rightarrow> string \<Rightarrow> attr_value \<Rightarrow> unit prog" where
  "set_attribute sp key v = emit (SetAttribute sp key v)"

definition set_status :: "string \<Rightarrow> status_code_t \<Rightarrow> string \<Rightarrow> unit prog" where
  "set_status sp code description = emit (SetStatus sp code description)"

definition add_event :: "string \<Rightarrow> string \<Rightarrow> unit prog" where
  "add_event sp name = emit (AddEvent sp name)"

definition logger_info :: "string \<Rightarrow> attr_value list \<Rightarrow> unit prog" where
  "logger_info msg args = emit (Log INFO msg args)"

definition logger_error :: "string \<Rightarrow> attr_value list \<Rightarrow> unit prog" where
  "logger_error msg args = emit (Log ERROR msg args)"

definition counter_add :: "instrument \<Rightarrow> int \<Rightarrow> tags \<Rightarrow> unit prog" where
  "counter_add c amount attributes = emit (CounterAdd c amount attributes)"

definition histogram_record :: "instrument \<Rightarrow> real \<Rightarrow> tags \<Rightarrow> unit prog" where
  "histogram_record h amount attributes = emit (HistogramRecord h amount attributes)"

definition gauge_set :: "instrument \<Rightarrow> real \<Rightarrow> unit prog" where
  "gauge_set g amount = emit (GaugeSet g amount)"

definition create_counter :: "string \<Rightarrow> string \<Rightarrow> instrument" where
  "create_counter name description = Instrument Counter name description []"

definition create_histogram :: "string \<Rightarrow> string \<Rightarrow> string \<Rightarrow> instrument" where
  "create_histogram name description unit = Instrument Histogram name description unit"

definition create_gauge :: "string \<Rightarrow> string \<Rightarrow> instrument" where
  "create_gauge name description = Instrument Gauge name description []"

section \<open>The instrument registry (app/otel\_setup.py)\<close>

text \<open>
  \<open>create_metrics_instruments(meter)\<close> returns a dict literal.  The meter handle is not
  modelled: an instrument is what \<open>create_counter\<close>, \<open>create_histogram\<close> or
  \<open>create_gauge\<close> was given, its kind, name, description and unit.
\<close>

definition create_metrics_instruments :: "(string \<times> instrument) list" where
  "create_metrics_instruments =
     [(''request_counter'',
         create_counter ''http_requests_custom_total'' ''Total HTTP requests (custom counter)''),
      (''response_time_histogram'',
         create_histogram ''http_request_duration_seconds''
           ''HTTP request duration in seconds'' ''s''),
      (''orders_counter'',
         create_counter ''orders_created_total'' ''Total orders created''),
      (''user_lookups_counter'',
         create_counter ''user_lookups_total'' ''Total user lookups performed''),
      (''active_requests_gauge'',
         create_gauge ''active_requests_current'' ''Currently active HTTP requests''),
      (''error_rate_gauge'',
         create_gauge ''error_rate_current'' ''Current error rate percentage'')]"

text \<open>app/main.py: \<open>metrics = create_metrics_instruments(telemetry.meter)\<close>.\<close>

definition metrics :: "(string \<times> instrument) list" where
  "metrics = create_metrics_instruments"

section \<open>The middleware of app/middleware.py\<close>

definition observability_middleware ::
  "request \<Rightarrow> (request \<Rightarrow> response prog) \<Rightarrow> response prog" where
  "observability_middleware request call_next =
     bnd time_time (\<lambda>start_time.
     bnd (modify (\<lambda>s. s\<lparr>active_requests := active_requests s + 1\<rparr>)) (\<lambda>_.
     bnd (modify (\<lambda>s. s\<lparr>total_requests := total_requests s + 1\<rparr>)) (\<lambda>_.
     bnd (getitem metrics ''active_requests_gauge'') (\<lambda>g.
     bnd (gets active_requests) (\<lambda>a.
     bnd (gauge_set g (of_int a)) (\<lambda>_.
     start_as_current_span ''http_request'' (
       bnd (set_attribute ''http_request'' ''http.method'' (AStr (http_method request))) (\<lambda>_.
       bnd (set_attribute ''http_request'' ''http.url'' (AStr (url request))) (\<lambda>_.
       bnd (logger_info ''{} {}'' [AStr (http_method request), AStr (path request)]) (\<lambda>_.
       bnd (call_next request) (\<lambda>response.
       bnd time_time (\<lambda>end_time.
       let duration = end_time - start_time in
       bnd (modify (\<lambda>s. s\<lparr>active_requests := active_requests s - 1\<rparr>)) (\<lambda>_.
       bnd (getitem metrics ''active_requests_gauge'') (\<lambda>g.
       bnd (gets active_requests) (\<lambda>a.
       bnd (gauge_set g (of_int a)) (\<lambda>_.
       bnd (getitem metrics ''request_counter'') (\<lambda>c.
       bnd (counter_add c 1
              [(''method'', http_method request),
               (''endpoint'', path request),
               (''status_code'', str_int (status_code response))]) (\<lambda>_.
       bnd (getitem metrics ''response_time_histogram'') (\<lambda>h.
       bnd (histogram_record h duration
              [(''method'', http_method request), (''endpoint'', path request)]) (\<lambda>_.
       bnd (if status_code response \<ge> 400
            then bnd (modify (\<lambda>s. s\<lparr>total_errors := total_errors s + 1\<rparr>)) (\<lambda>_.
                 logger_error ''Request failed: {}'' [AInt (status_code response)])
            else ret ()) (\<lambda>_.
       bnd (gets total_errors) (\<lambda>te.
       bnd (gets total_requests) (\<lambda>tr.
       let error_rate = (if tr > 0 then (of_int te / of_int tr) * 100 else 0) in
       bnd (getitem metrics ''error_rate_gauge'') (\<lambda>g.
       bnd (gauge_set g error_rate) (\<lambda>_.
       bnd (set_attribute ''http_request'' ''http.status_code''
              (AInt (status_code response))) (\<lambda>_.
       bnd (set_attribute ''http_request'' ''http.response_time_ms''
              (AFloat (duration * 1000))) (\<lambda>_.
       bnd (logger_info ''{} {} - {} ({:.3f}s)''
              [AStr (http_method request), AStr (path request),
               AInt (status_code response), AFloat duration]) (\<lambda>_.
       ret response))))))))))))))))))))))))))))"

section \<open>The middleware of main.py\<close>

text \<open>The instruments main.py creates at module level.\<close>

definition custom_request_counter :: instrument where
  "custom_request_counter =
     create_counter ''http_requests_custom_total'' ''Total HTTP requests (custom counter)''"

definition response_time_histogram :: instrument where
  "response_time_histogram =
     create_histogram ''http_request_duration_seconds'' ''HTTP request duration in seconds'' ''s''"

definition orders_counter :: instrument where
  "orders_counter = create_counter ''orders_created_total'' ''Total orders created''"

definition user_lookups_counter :: instrument where
  "user_lookups_counter = create_counter ''user_lookups_total'' ''Total user lookups performed''"

definition active_requests_gauge :: instrument where
  "active_requests_gauge =
     create_gauge ''active_requests_current'' ''Currently active HTTP requests''"

definition error_rate_gauge :: instrument where
  "error_rate_gauge = create_gauge ''error_rate_current'' ''Current error rate percentage''"

definition metrics_middleware ::
  "request \<Rightarrow> (request \<Rightarrow> response prog) \<Rightarrow> response prog" where
  "metrics_middleware request call_next =
     bnd time_time (\<lambda>start_time.
     bnd (modify (\<lambda>s. s\<lparr>active_requests := active_requests s + 1\<rparr>)) (\<lambda>_.
     bnd (modify (\<lambda>s. s\<lparr>total_requests := total_requests s + 1\<rparr>)) (\<lambda>_.
     bnd (gets active_requests) (\<lambda>a.
     bnd (gauge_set active_requests_gauge (of_int a)) (\<lambda>_.
     start_as_current_span ''http_request'' (
       bnd (set_attribute ''http_request'' ''http.method'' (AStr (http_method request))) (\<lambda>_.
       bnd (set_attribute ''http_request'' ''http.url'' (AStr (url request))) (\<lambda>_.
       bnd (logger_info ''{} {}'' [AStr (http_method request), AStr (path request)]) (\<lambda>_.
       bnd (call_next request) (\<lambda>response.
       bnd time_time (\<lambda>end_time.
       let duration = end_time - start_time in
       bnd (modify (\<lambda>s. s\<lparr>active_requests := active_requests s - 1\<rparr>)) (\<lambda>_.
       bnd (gets active_requests) (\<lambda>a.
       bnd (gauge_set active_requests_gauge (of_int a)) (\<lambda>_.
       bnd (counter_add custom_request_counter 1
              [(''method'', http_method request),
               (''endpoint'', path request),
               (''status_code'', str_int (status_code response))]) (\<lambda>_.
       bnd (histogram_record response_time_histogram duration
              [(''method'', http_method request), (''endpoint'', path request)]) (\<lambda>_.
       bnd (if status_code response \<ge> 400
            then bnd (modify (\<lambda>s. s\<lparr>total_errors := total_errors s + 1\<rparr>)) (\<lambda>_.
                 logger_error ''Request failed: {}'' [AInt (status_code response)])
            else ret ()) (\<lambda>_.
       bnd (gets total_errors) (\<lambda>te.
       bnd (gets total_requests) (\<lambda>tr.
       let error_rate = (if tr > 0 then (of_int te / of_int tr) * 100 else 0) in
       bnd (gauge_set error_rate_gauge error_rate) (\<lambda>_.
       bnd (set_attribute ''http_request'' ''http.status_code''
              (AInt (status_code response))) (\<lambda>_.
       bnd (set_attribute ''http_request'' ''http.response_time_ms''
              (AFloat (duration * 1000))) (\<lambda>_.
       bnd (logger_info ''{} {} - {} ({:.3f}s)''
              [AStr (http_method request), AStr (path request),
               AInt (status_code response), AFloat duration]) (\<lambda>_.
       ret response)))))))))))))))))))))))"

section \<open>The endpoints of app/main.py\<close>

definition get_user :: "int \<Rightarrow> json prog" where
  "get_user user_id =
     start_as_current_span ''get_user'' (
       bnd (set_attribute ''get_user'' ''user.id'' (AInt user_id)) (\<lambda>_.
       bnd (getitem metrics ''user_lookups_counter'') (\<lambda>c.
       bnd (counter_add c 1
              [(''user_type'', if user_id < 1000 then ''standard'' else ''premium'')]) (\<lambda>_.
       bnd (logger_info ''Looking up user {}'' [AInt user_id]) (\<lambda>_.
       bnd (time_sleep (2 / 100)) (\<lambda>_.
       if user_id \<le> 0 then
         bnd (set_status ''get_user'' StatusCode_ERROR ''Invalid user ID'') (\<lambda>_.
         raise (HTTPException 400 ''User ID must be positive''))
       else
         ret (JObj [(''user_id'', JInt user_id),
                    (''name'', JStr (''User '' @ str_int user_id)),
                    (''type'', JStr (if user_id \<ge> 1000 then ''premium'' else ''standard''))])))))))"

text \<open>
  \<open>amount > 100\<close> on a value that came out of a JSON body: numbers compare (a \<open>bool\<close> is
  an \<open>int\<close> in Python), every other kind of value raises \<open>TypeError\<close>.
\<close>

fun py_gt :: "json \<Rightarrow> int \<Rightarrow> bool prog" where
  "py_gt (JInt i) n = ret (i > n)"
| "py_gt (JFloat x) n = ret (x > of_int n)"
| "py_gt (JBool b) n = ret ((if b then 1 else 0) > n)"
| "py_gt JNull n = raise TypeError"
| "py_gt (JStr v) n = raise TypeError"
| "py_gt (JList v) n = raise TypeError"
| "py_gt (JObj v) n = raise TypeError"

definition create_order :: "(string \<times> json) list \<Rightarrow> json prog" where
  "create_order order =
     start_as_current_span ''create_order'' (
       let amount = dict_get order ''amount'' (JInt 0) in
       bnd (set_attribute ''create_order'' ''order.amount'' (AJson amount)) (\<lambda>_.
       bnd (getitem metrics ''orders_counter'') (\<lambda>c.
       bnd (py_gt amount 100) (\<lambda>large.
       bnd (counter_add c 1
              [(''order_size'', if large then ''large'' else ''small''),
               (''currency'', ''USD'')]) (\<lambda>_.
       bnd (logger_info ''Creating order for ${}'' [AJson amount]) (\<lambda>_.
       bnd (start_as_current_span ''validate_order'' (
              bnd (time_sleep (1 / 100)) (\<lambda>_.
              add_event ''validate_order'' ''Order validation completed''))) (\<lambda>_.
       bnd (start_as_current_span ''process_payment'' (
              bnd (set_attribute ''process_payment'' ''payment.method'' (AStr ''credit_card'')) (\<lambda>_.
              bnd (time_sleep (3 / 100)) (\<lambda>_.
              add_event ''process_payment'' ''Payment processed'')))) (\<lambda>_.
       bnd (start_as_current_span ''update_inventory'' (
              bnd (time_sleep (1 / 100)) (\<lambda>_.
              add_event ''update_inventory'' ''Inventory updated''))) (\<lambda>_.
       bnd time_time (\<lambda>now.
       ret (JObj [(''order_id'', JStr (''order_'' @ str_int (py_int now))),
                  (''amount'', amount),
                  (''status'', JStr ''created'')])))))))))))"

definition health :: "json prog" where
  "health =
     start_as_current_span ''health_check'' (
       bnd (logger_info ''Health check'' []) (\<lambda>_.
       ret (JObj [(''status'', JStr ''healthy''),
                  (''service'', JStr ''fastapi-clean-demo''),
                  (''observability'', JStr ''enabled'')])))"

definition error_endpoint :: "json prog" where
  "error_endpoint =
     start_as_current_span ''error_operation'' (
       bnd (logger_error ''Triggering error for metrics testing'' []) (\<lambda>_.
       bnd (set_status ''error_operation'' StatusCode_ERROR ''Demo error'') (\<lambda>_.
       raise (HTTPException 500 ''Demo error for testing metrics''))))"



section \<open>What the framework does with an endpoint's result\<close>

text \<open>
  FastAPI serves a value returned by an endpoint as a response with status 200 and the
  value as JSON body.  An \<open>HTTPException\<close> raised by the endpoint is turned into a
  response with the exception's status code and the body \<open>{"detail": detail}\<close> before
  it reaches an \<open>http\<close> middleware; any other exception goes through \<open>call_next\<close> to the
  middleware as an exception.
\<close>

definition fastapi_route :: "json prog \<Rightarrow> request \<Rightarrow> response prog" where
  "fastapi_route endpoint request s =
     (case endpoint s of
        (Inr content, s') \<Rightarrow> (Inr \<lparr>status_code = 200, body = content\<rparr>, s')
      | (Inl (HTTPException code detail), s') \<Rightarrow>
          (Inr \<lparr>status_code = code, body = JObj [(''detail'', JStr detail)]\<rparr>, s')
      | (Inl e, s') \<Rightarrow> (Inl e, s'))"

section \<open>Vocabulary of the properties\<close>

text \<open>The state of a freshly started process whose clock shows \<open>t\<close>.\<close>

definition init_state :: "real \<Rightarrow> state" where
  "init_state t =
     \<lparr>total_requests = 0, total_errors = 0, active_requests = 0, events = [], clock = t\<rparr>"

text \<open>
  The state in which the middleware hands the request to \<open>call_next\<close>, and the state it
  leaves after a response came back in state \<open>s\<close>.  Both are summaries of the
  middleware's code; \<open>observability_middleware_unfold\<close> and \<open>metrics_middleware_unfold\<close>
  below prove them against the two functions.
\<close>

definition at_call_next :: "request \<Rightarrow> state \<Rightarrow> state" where
  "at_call_next request s =
     s\<lparr>active_requests := active_requests s + 1,
       total_requests := total_requests s + 1,
       events := events s @
         [GaugeSet active_requests_gauge (of_int (active_requests s + 1)),
          SpanStart ''http_request'',
          SetAttribute ''http_request'' ''http.method'' (AStr (http_method request)),
          SetAttribute ''http_request'' ''http.url'' (AStr (url request)),
          Log INFO ''{} {}'' [AStr (http_method request), AStr (path request)]]\<rparr>"

definition after_response :: "request \<Rightarrow> real \<Rightarrow> response \<Rightarrow> state \<Rightarrow> state" where
  "after_response request start_time response s =
     (let failed = (status_code response \<ge> 400);
          te = (if failed then total_errors s + 1 else total_errors s);
          duration = clock s - start_time
      in s\<lparr>active_requests := active_requests s - 1,
           total_errors := te,
           events := events s @
             [GaugeSet active_requests_gauge (of_int (active_requests s - 1)),
              CounterAdd custom_request_counter 1
                [(''method'', http_method request), (''endpoint'', path request),
                 (''status_code'', str_int (status_code response))],
              HistogramRecord response_time_histogram duration
                [(''method'', http_method request), (''endpoint'', path request)]] @
             (if failed then [Log ERROR ''Request failed: {}'' [AInt (status_code response)]]
              else []) @
             [GaugeSet error_rate_gauge
                (if total_requests s > 0 then of_int te / of_int (total_requests s) * 100 else 0),
              SetAttribute ''http_request'' ''http.status_code'' (AInt (status_code response)),
              SetAttribute ''http_request'' ''http.response_time_ms'' (AFloat (duration * 1000)),
              Log INFO ''{} {} - {} ({:.3f}s)''
                [AStr (http_method request), AStr (path request),
                 AInt (status_code response), AFloat duration],
              SpanEnd ''http_request'']\<rparr>)"

fun is_metric :: "event \<Rightarrow> bool" where
  "is_metric (CounterAdd c n t) = True"
| "is_metric (HistogramRecord h x t) = True"
| "is_metric (GaugeSet g x) = True"
| "is_metric e = False"

text \<open>The calls made on metric instruments, in the order they were made.\<close>

definition metric_events :: "event list \<Rightarrow> event list" where
  "metric_events evs = filter is_metric evs"

text \<open>\<open>j[k]\<close> for a JSON object, \<open>None\<close> when \<open>j\<close> is no object or has no such key.\<close>

definition json_field :: "json \<Rightarrow> string \<Rightarrow> json option" where
  "json_field j k = (case j of JObj d \<Rightarrow> map_of d k | _ \<Rightarrow> None)"


text \<open>
  The values set on gauge \<open>g\<close> by the calls in \<open>evs\<close>, oldest first, and the value the
  gauge shows after them: the last one set, if any.
\<close>

fun gauge_values :: "instrument \<Rightarrow> event list \<Rightarrow> real list" where
  "gauge_values g [] = []"
| "gauge_values g (GaugeSet g' v # es) =
     (if g' = g then v # gauge_values g es else gauge_values g es)"
| "gauge_values g (e # es) = gauge_values g es"

definition gauge_value :: "instrument \<Rightarrow> event list \<Rightarrow> real option" where
  "gauge_value g evs =
     (case gauge_values g evs of [] \<Rightarrow> None | v # vs \<Rightarrow> Some (last (v # vs)))"



text \<open>
  What the properties ask of a downstream handler: that it leaves the middleware's three
  globals alone (no endpoint of the application touches them), that it answers every
  request with a response rather than an exception, that it sets no value on the
  error-rate gauge.
\<close>

definition leaves_counters :: "(request \<Rightarrow> response prog) \<Rightarrow> bool" where
  "leaves_counters call_next =
     (\<forall>request s. total_requests (snd (call_next request s)) = total_requests s
        \<and> total_errors (snd (call_next request s)) = total_errors s
        \<and> active_requests (snd (call_next request s)) = active_requests s)"

definition always_responds :: "(request \<Rightarrow> response prog) \<Rightarrow> bool" where
  "always_responds call_next = (\<forall>request s. \<not> isl (fst (call_next request s)))"

definition leaves_error_rate :: "(request \<Rightarrow> response prog) \<Rightarrow> bool" where
  "leaves_error_rate call_next =
     (\<forall>request s. gauge_values error_rate_gauge (events (snd (call_next request s))) =
        gauge_values error_rate_gauge (events s))"

text \<open>The invariants of the running counters and of the published error rates.\<close>

definition counters_ok :: "state \<Rightarrow> bool" where
  "counters_ok s = (0 \<le> total_errors s \<and> total_errors s \<le> total_requests s)"

definition rates_in_range :: "state \<Rightarrow> bool" where
  "rates_in_range s =
     (\<forall>v \<in> set (gauge_values error_rate_gauge (events s)). 0 \<le> v \<and> v \<le> 100)"

section \<open>Basic facts\<close>

lemmas prog_defs = bnd_def ret_def raise_def gets_def modify_def emit_def time_time_def
  start_as_current_span_def set_attribute_def logger_info_def logger_error_def counter_add_def
  histogram_record_def gauge_set_def time_sleep_def set_status_def add_event_def

lemmas instrument_defs = custom_request_counter_def response_time_histogram_def
  orders_counter_def user_lookups_counter_def active_requests_gauge_def error_rate_gauge_def

text \<open>
  The registry of app/otel\_setup.py holds, under its six keys, the same instruments
  that main.py creates at module level; no lookup of the middleware or of an endpoint
  raises \<open>KeyError\<close>.
\<close>

lemma getitem_metrics:
  "getitem metrics ''request_counter'' = ret custom_request_counter"
  "getitem metrics ''response_time_histogram'' = ret response_time_histogram"
  "getitem metrics ''orders_counter'' = ret orders_counter"
  "getitem metrics ''user_lookups_counter'' = ret user_lookups_counter"
  "getitem metrics ''active_requests_gauge'' = ret active_requests_gauge"
  "getitem metrics ''error_rate_gauge'' = ret error_rate_gauge"
  by (simp_all add: getitem_def metrics_def create_metrics_instruments_def instrument_defs)

lemma metrics_middleware_unfold:
  "metrics_middleware request call_next s =
     (case call_next request (at_call_next request s) of
        (Inl e, s2) \<Rightarrow> (Inl e, s2\<lparr>events := events s2 @ [SpanEnd ''http_request'']\<rparr>)
      | (Inr response, s2) \<Rightarrow> (Inr response, after_response request (clock s) response s2))"
  by (simp add: metrics_middleware_def at_call_next_def after_response_def prog_defs Let_def
      split: prod.splits sum.splits)

lemma observability_middleware_unfold:
  "observability_middleware request call_next s =
     (case call_next request (at_call_next request s) of
        (Inl e, s2) \<Rightarrow> (Inl e, s2\<lparr>events := events s2 @ [SpanEnd ''http_request'']\<rparr>)
      | (Inr response, s2) \<Rightarrow> (Inr response, after_response request (clock s) response s2))"
  by (simp add: observability_middleware_def getitem_metrics at_call_next_def
      after_response_def prog_defs Let_def split: prod.splits sum.splits)

lemma gauge_values_append [simp]:
  "gauge_values g (xs @ ys) = gauge_values g xs @ gauge_values g ys"
  by (induction g xs rule: gauge_values.induct) simp_all

lemma gauges_differ [simp]: "active_requests_gauge \<noteq> error_rate_gauge"
  by (simp add: instrument_defs create_gauge_def)

lemma gauge_values_at_call_next [simp]:
  "gauge_values error_rate_gauge (events (at_call_next request s)) =
     gauge_values error_rate_gauge (events s)"
  by (simp add: at_call_next_def)

lemma gauge_values_after_response:
  "gauge_values error_rate_gauge (events (after_response request t response s)) =
     gauge_values error_rate_gauge (events s) @
       [if total_requests s > 0
        then of_int (total_errors (after_response request t response s)) /
             of_int (total_requests s) * 100
        else 0]"
  by (simp add: after_response_def Let_def)

lemma counters_after_response:
  "total_requests (after_response request t response s) = total_requests s"
  "total_errors (after_response request t response s) =
     total_errors s + (if status_code response \<ge> 400 then 1 else 0)"
  "active_requests (after_response request t response s) = active_requests s - 1"
  "clock (after_response request t response s) = clock s"
  by (simp_all add: after_response_def Let_def)

lemma counters_at_call_next:
  "total_requests (at_call_next request s) = total_requests s + 1"
  "total_errors (at_call_next request s) = total_errors s"
  "active_requests (at_call_next request s) = active_requests s + 1"
  "clock (at_call_next request s) = clock s"
  by (simp_all add: at_call_next_def)

text \<open>The two exits of the middleware, as rules.\<close>

lemma middleware_response:
  assumes "call_next request (at_call_next request s) = (Inr response, s2)"
  shows "observability_middleware request call_next s =
           (Inr response, after_response request (clock s) response s2)"
  using assms by (simp add: observability_middleware_unfold)

lemma middleware_exception:
  assumes "call_next request (at_call_next request s) = (Inl e, s2)"
  shows "observability_middleware request call_next s =
           (Inl e, s2\<lparr>events := events s2 @ [SpanEnd ''http_request'']\<rparr>)"
  using assms by (simp add: observability_middleware_unfold)

section \<open>The endpoints\<close>

text \<open>
  Claim C3.  For every integer \<open>user_id\<close>, \<open>GET /users/{user_id}\<close> answers 400 when
  \<open>user_id \<le> 0\<close> (the endpoint raises \<open>HTTPException(400)\<close>); otherwise it answers 200
  with a body whose \<open>type\<close> field is \<open>premium\<close> for \<open>user_id \<ge> 1000\<close> and \<open>standard\<close>
  below 1000.
\<close>

theorem get_user_response:
  "fst (get_user user_id s) =
     (if user_id \<le> 0 then Inl (HTTPException 400 ''User ID must be positive'')
      else Inr (JObj [(''user_id'', JInt user_id),
                      (''name'', JStr (''User '' @ str_int user_id)),
                      (''type'', JStr (if user_id \<ge> 1000 then ''premium'' else ''standard''))]))
   \<and> fst (fastapi_route (get_user user_id) request s) =
     Inr (if user_id \<le> 0
          then \<lparr>status_code = 400, body = JObj [(''detail'', JStr ''User ID must be positive'')]\<rparr>
          else \<lparr>status_code = 200,
                body = JObj [(''user_id'', JInt user_id),
                             (''name'', JStr (''User '' @ str_int user_id)),
                             (''type'', JStr (if user_id \<ge> 1000 then ''premium'' else ''standard''))]\<rparr>)"
  by (simp add: get_user_def fastapi_route_def getitem_metrics prog_defs)

text \<open>The four requests the specification names: ids 5, 1500, 0 and -5.\<close>

theorem get_user_response_witness:
  "fst (fastapi_route (get_user 5)
      \<lparr>http_method = ''GET'', url = ''http://testserver/users/5'', path = ''/users/5''\<rparr>
      (init_state 0)) =
     Inr \<lparr>status_code = 200,
          body = JObj [(''user_id'', JInt 5), (''name'', JStr ''User 5''),
                       (''type'', JStr ''standard'')]\<rparr>
   \<and> fst (fastapi_route (get_user 1500)
      \<lparr>http_method = ''GET'', url = ''http://testserver/users/1500'', path = ''/users/1500''\<rparr>
      (init_state 0)) =
     Inr \<lparr>status_code = 200,
          body = JObj [(''user_id'', JInt 1500), (''name'', JStr ''User 1500''),
                       (''type'', JStr ''premium'')]\<rparr>
   \<and> fst (fastapi_route (get_user 0)
      \<lparr>http_method = ''GET'', url = ''http://testserver/users/0'', path = ''/users/0''\<rparr>
      (init_state 0)) =
     Inr \<lparr>status_code = 400, body = JObj [(''detail'', JStr ''User ID must be positive'')]\<rparr>
   \<and> fst (fastapi_route (get_user (- 5))
      \<lparr>http_method = ''GET'', url = ''http://testserver/users/-5'', path = ''/users/-5''\<rparr>
      (init_state 0)) =
     Inr \<lparr>status_code = 400, body = JObj [(''detail'', JStr ''User ID must be positive'')]\<rparr>"
  using get_user_response [of 5 "init_state 0"] get_user_response [of 1500 "init_state 0"]
    get_user_response [of 0 "init_state 0"] get_user_response [of "- 5" "init_state 0"]
  by (simp add: str_int_def str_nat.simps)

text \<open>
  Claim C9.  A lookup with \<open>user_id \<le> 0\<close> fails with 400, and still the call
  \<open>user_lookups_counter.add(1, {"user_type": "standard"})\<close> has been made: it is the one
  metric call the endpoint adds, and the error path does not take it back.
\<close>

theorem failed_lookup_is_counted:
  "user_id \<le> 0 \<Longrightarrow>
     fst (get_user user_id s) = Inl (HTTPException 400 ''User ID must be positive'')
     \<and> metric_events (events (snd (get_user user_id s))) =
         metric_events (events s) @
           [CounterAdd user_lookups_counter 1 [(''user_type'', ''standard'')]]
     \<and> metric_events (events (snd (fastapi_route (get_user user_id) request s))) =
         metric_events (events s) @
           [CounterAdd user_lookups_counter 1 [(''user_type'', ''standard'')]]"
  by (simp add: get_user_def fastapi_route_def getitem_metrics prog_defs metric_events_def)

theorem failed_lookup_is_counted_witness:
  "(- 5 :: int) \<le> 0
   \<and> fst (get_user (- 5) (init_state 0)) = Inl (HTTPException 400 ''User ID must be positive'')
   \<and> metric_events (events (snd (get_user (- 5) (init_state 0)))) =
       [CounterAdd user_lookups_counter 1 [(''user_type'', ''standard'')]]"
  using failed_lookup_is_counted [of "- 5" "init_state 0"]
  by (simp add: init_state_def metric_events_def)

text \<open>
  Claim C6.  \<open>GET /error\<close> raises \<open>HTTPException(500)\<close>, which is served as status 500,
  in every state; \<open>GET /health\<close> is served as status 200 with a body whose \<open>status\<close>
  field is \<open>healthy\<close>, in every state.
\<close>

theorem error_and_health:
  "fst (error_endpoint s) = Inl (HTTPException 500 ''Demo error for testing metrics'')
   \<and> fst (fastapi_route error_endpoint request s) =
       Inr \<lparr>status_code = 500,
            body = JObj [(''detail'', JStr ''Demo error for testing metrics'')]\<rparr>
   \<and> fst (fastapi_route health request s) =
       Inr \<lparr>status_code = 200,
            body = JObj [(''status'', JStr ''healthy''),
                         (''service'', JStr ''fastapi-clean-demo''),
                         (''observability'', JStr ''enabled'')]\<rparr>
   \<and> json_field (body (projr (fst (fastapi_route health request s)))) ''status'' =
       Some (JStr ''healthy'')"
  by (simp add: error_endpoint_def health_def fastapi_route_def prog_defs json_field_def)







section \<open>The middleware\<close>

text \<open>
  Claim C5.  The middleware returns what the downstream handler returned: the very
  response when there is one, the very exception when the handler raised.
\<close>

theorem middleware_propagates:
  "fst (observability_middleware request call_next s) =
     fst (call_next request (at_call_next request s))"
  by (simp add: observability_middleware_unfold split: prod.splits sum.splits)

text \<open>A request that is answered with 500, and one whose handler raises.\<close>

theorem middleware_propagates_witness:
  "fst (observability_middleware
     \<lparr>http_method = ''GET'', url = ''http://testserver/error'', path = ''/error''\<rparr>
     (fastapi_route error_endpoint) (init_state 0)) =
     Inr \<lparr>status_code = 500,
          body = JObj [(''detail'', JStr ''Demo error for testing metrics'')]\<rparr>
   \<and> fst (observability_middleware
     \<lparr>http_method = ''POST'', url = ''http://testserver/orders'', path = ''/orders''\<rparr>
     (fastapi_route (create_order [(''amount'', JStr ''abc'')])) (init_state 0)) =
     Inl TypeError"
  using middleware_propagates [of
      "\<lparr>http_method = ''GET'', url = ''http://testserver/error'', path = ''/error''\<rparr>"
      "fastapi_route error_endpoint" "init_state 0"]
    middleware_propagates [of
      "\<lparr>http_method = ''POST'', url = ''http://testserver/orders'', path = ''/orders''\<rparr>"
      "fastapi_route (create_order [(''amount'', JStr ''abc'')])" "init_state 0"]
  by (simp add: fastapi_route_def error_endpoint_def create_order_def dict_get_def
      getitem_metrics prog_defs Let_def)

text \<open>
  Claim C8.  \<open>metrics_middleware\<close> of main.py and \<open>observability_middleware\<close> of
  app/middleware.py do the same: for the same request, downstream handler and state
  they return the same result and leave the same counters and the same telemetry calls
  in the same order.
\<close>

theorem middlewares_equivalent:
  "metrics_middleware request call_next s = observability_middleware request call_next s"
  by (simp add: metrics_middleware_unfold observability_middleware_unfold)

theorem middlewares_equivalent_witness:
  "metrics_middleware
     \<lparr>http_method = ''GET'', url = ''http://testserver/health'', path = ''/health''\<rparr>
     (fastapi_route health) (init_state 0) =
   observability_middleware
     \<lparr>http_method = ''GET'', url = ''http://testserver/health'', path = ''/health''\<rparr>
     (fastapi_route health) (init_state 0)"
  by (rule middlewares_equivalent)

text \<open>
  On the way to claim C1: when the handler leaves the counters alone, a request that
  ends with a response leaves \<open>active_requests\<close> as it found it, and a request whose
  handler raises leaves it one higher.
\<close>

lemma active_requests_restored_on_response:
  assumes "leaves_counters call_next"
    and "observability_middleware request call_next s = (Inr response, s')"
  shows "active_requests s' = active_requests s"
proof -
  obtain r s2 where c: "call_next request (at_call_next request s) = (r, s2)"
    by (cases "call_next request (at_call_next request s)")
  from assms(1) have "active_requests (snd (call_next request (at_call_next request s))) =
      active_requests (at_call_next request s)"
    unfolding leaves_counters_def by blast
  with c have a: "active_requests s2 = active_requests s + 1"
    by (simp add: counters_at_call_next)
  from assms(2) c show ?thesis
    by (cases r) (auto simp add: observability_middleware_unfold counters_after_response a)
qed

lemma active_requests_leaked_on_exception:
  assumes "leaves_counters call_next"
    and "observability_middleware request call_next s = (Inl e, s')"
  shows "active_requests s' = active_requests s + 1"
proof -
  obtain r s2 where c: "call_next request (at_call_next request s) = (r, s2)"
    by (cases "call_next request (at_call_next request s)")
  from assms(1) have "active_requests (snd (call_next request (at_call_next request s))) =
      active_requests (at_call_next request s)"
    unfolding leaves_counters_def by blast
  with c have a: "active_requests s2 = active_requests s + 1"
    by (simp add: counters_at_call_next)
  from assms(2) c show ?thesis
    by (cases r) (auto simp add: observability_middleware_unfold counters_after_response a)
qed

lemma active_requests_not_below:
  assumes "leaves_counters call_next"
  shows "active_requests s \<le> active_requests (snd (observability_middleware request call_next s))"
proof (cases "fst (observability_middleware request call_next s)")
  case (Inl e)
  then have "observability_middleware request call_next s =
      (Inl e, snd (observability_middleware request call_next s))"
    by (simp add: prod_eq_iff)
  with assms have "active_requests (snd (observability_middleware request call_next s)) =
      active_requests s + 1"
    by (rule active_requests_leaked_on_exception)
  then show ?thesis by simp
next
  case (Inr response)
  then have "observability_middleware request call_next s =
      (Inr response, snd (observability_middleware request call_next s))"
    by (simp add: prod_eq_iff)
  with assms have "active_requests (snd (observability_middleware request call_next s)) =
      active_requests s"
    by (rule active_requests_restored_on_response)
  then show ?thesis by simp
qed

text \<open>
  Claim C1 does not hold on the exception path.  \<open>POST /orders\<close> with the body
  \<open>{"amount": "abc"}\<close> makes the endpoint raise \<open>TypeError\<close>; the exception passes
  through \<open>call_next\<close>, the \<open>with\<close> block ends the span, and the statements that decrement
  \<open>active_requests\<close> and publish it are skipped: the counter stays at 1 after the request
  is over.
\<close>

theorem exception_leaks_active_request:
  "observability_middleware
     \<lparr>http_method = ''POST'', url = ''http://testserver/orders'', path = ''/orders''\<rparr>
     (fastapi_route (create_order [(''amount'', JStr ''abc'')])) (init_state 0)
   = (Inl TypeError,
      \<lparr>total_requests = 1, total_errors = 0, active_requests = 1,
       events =
         [GaugeSet active_requests_gauge 1,
          SpanStart ''http_request'',
          SetAttribute ''http_request'' ''http.method'' (AStr ''POST''),
          SetAttribute ''http_request'' ''http.url'' (AStr ''http://testserver/orders''),
          Log INFO ''{} {}'' [AStr ''POST'', AStr ''/orders''],
          SpanStart ''create_order'',
          SetAttribute ''create_order'' ''order.amount'' (AJson (JStr ''abc'')),
          SpanEnd ''create_order'',
          SpanEnd ''http_request''],
       clock = 0\<rparr>)"
  by (simp add: observability_middleware_unfold at_call_next_def init_state_def fastapi_route_def
      create_order_def dict_get_def getitem_metrics prog_defs Let_def)


lemma gauge_value_snoc:
  "gauge_values g evs = vs @ [v] \<Longrightarrow> gauge_value g evs = Some v"
  by (cases vs) (simp_all add: gauge_value_def)







lemma error_handler:
  "leaves_counters (fastapi_route error_endpoint)"
  "always_responds (fastapi_route error_endpoint)"
  "leaves_error_rate (fastapi_route error_endpoint)"
  by (simp_all add: leaves_counters_def always_responds_def leaves_error_rate_def
      fastapi_route_def error_endpoint_def prog_defs)



lemma rate_in_range:
  fixes te tr :: int
  assumes "0 \<le> te" and "te \<le> tr" and "0 < tr"
  shows "0 \<le> real_of_int te / real_of_int tr * 100" and "real_of_int te / real_of_int tr * 100 \<le> 100"
  using assms by (simp_all add: field_simps)

text \<open>
  Claim C10.  A run of the middleware keeps \<open>0 \<le> total_errors \<le> total_requests\<close> and
  keeps every value ever set on the error-rate gauge within \<open>[0, 100]\<close>; it leaves
  \<open>total_requests \<ge> 1\<close>, so the rate it publishes after a response is the quotient
  \<open>total_errors / total_requests * 100\<close> and never the fallback 0 of the zero
  denominator.
\<close>

theorem middleware_keeps_counters_sane:
  assumes "counters_ok s" and "rates_in_range s"
    and "leaves_counters call_next" and "leaves_error_rate call_next"
  shows "counters_ok (snd (observability_middleware request call_next s))
    \<and> rates_in_range (snd (observability_middleware request call_next s))
    \<and> 1 \<le> total_requests (snd (observability_middleware request call_next s))
    \<and> (\<not> isl (fst (observability_middleware request call_next s)) \<longrightarrow>
         gauge_value error_rate_gauge
           (events (snd (observability_middleware request call_next s))) =
         Some (of_int (total_errors (snd (observability_middleware request call_next s))) /
               of_int (total_requests (snd (observability_middleware request call_next s))) * 100))"
proof -
  obtain r s2 where c: "call_next request (at_call_next request s) = (r, s2)"
    by (cases "call_next request (at_call_next request s)")
  from assms(3) have
    "total_requests (snd (call_next request (at_call_next request s))) =
       total_requests (at_call_next request s)"
    "total_errors (snd (call_next request (at_call_next request s))) =
       total_errors (at_call_next request s)"
    unfolding leaves_counters_def by blast+
  with c have tr: "total_requests s2 = total_requests s + 1" and te: "total_errors s2 = total_errors s"
    by (simp_all add: counters_at_call_next)
  from assms(4) have
    "gauge_values error_rate_gauge (events (snd (call_next request (at_call_next request s)))) =
       gauge_values error_rate_gauge (events (at_call_next request s))"
    unfolding leaves_error_rate_def by blast
  with c have gv: "gauge_values error_rate_gauge (events s2) = gauge_values error_rate_gauge (events s)"
    by simp
  from assms(1) have ok: "0 \<le> total_errors s" "total_errors s \<le> total_requests s"
    by (simp_all add: counters_ok_def)
  show ?thesis
  proof (cases r)
    case (Inl e)
    with c have m: "observability_middleware request call_next s =
        (Inl e, s2\<lparr>events := events s2 @ [SpanEnd ''http_request'']\<rparr>)"
      by (simp add: middleware_exception)
    from assms(2) ok tr te gv show ?thesis
      by (simp add: m counters_ok_def rates_in_range_def)
  next
    case (Inr response)
    let ?s' = "after_response request (clock s) response s2"
    from Inr c have m: "observability_middleware request call_next s = (Inr response, ?s')"
      by (simp add: middleware_response)
    have tr': "total_requests ?s' = total_requests s + 1"
      by (simp add: counters_after_response tr)
    have te': "0 \<le> total_errors ?s'" "total_errors ?s' \<le> total_requests ?s'"
      using ok by (simp_all add: counters_after_response tr te)
    have pos: "0 < total_requests ?s'"
      using ok tr' by simp
    have gvs: "gauge_values error_rate_gauge (events ?s') =
        gauge_values error_rate_gauge (events s) @
          [of_int (total_errors ?s') / of_int (total_requests ?s') * 100]"
      using pos by (simp add: gauge_values_after_response counters_after_response gv)
    have range: "0 \<le> real_of_int (total_errors ?s') / real_of_int (total_requests ?s') * 100"
      "real_of_int (total_errors ?s') / real_of_int (total_requests ?s') * 100 \<le> 100"
      using te' pos by (rule rate_in_range)+
    have "rates_in_range ?s'"
      using assms(2) range unfolding rates_in_range_def gvs by auto
    moreover have "counters_ok ?s'"
      using te' by (simp add: counters_ok_def)
    moreover have "gauge_value error_rate_gauge (events ?s') =
        Some (of_int (total_errors ?s') / of_int (total_requests ?s') * 100)"
      using gvs by (rule gauge_value_snoc)
    ultimately show ?thesis
      using pos by (simp add: m)
  qed
qed


lemma error_request_alone:
  "fst (observability_middleware
     \<lparr>http_method = ''GET'', url = ''http://testserver/error'', path = ''/error''\<rparr>
     (fastapi_route error_endpoint) (init_state 0)) =
     Inr \<lparr>status_code = 500,
          body = JObj [(''detail'', JStr ''Demo error for testing metrics'')]\<rparr>"
  "total_requests (snd (observability_middleware
     \<lparr>http_method = ''GET'', url = ''http://testserver/error'', path = ''/error''\<rparr>
     (fastapi_route error_endpoint) (init_state 0))) = 1"
  "total_errors (snd (observability_middleware
     \<lparr>http_method = ''GET'', url = ''http://testserver/error'', path = ''/error''\<rparr>
     (fastapi_route error_endpoint) (init_state 0))) = 1"
  by (simp_all add: observability_middleware_unfold fastapi_route_def error_endpoint_def
      prog_defs at_call_next_def after_response_def init_state_def)

theorem middleware_keeps_counters_sane_witness:
  "counters_ok (init_state 0) \<and> rates_in_range (init_state 0)
   \<and> leaves_counters (fastapi_route error_endpoint)
   \<and> leaves_error_rate (fastapi_route error_endpoint)
   \<and> counters_ok (snd (observability_middleware
       \<lparr>http_method = ''GET'', url = ''http://testserver/error'', path = ''/error''\<rparr>
       (fastapi_route error_endpoint) (init_state 0)))
   \<and> gauge_value error_rate_gauge (events (snd (observability_middleware
       \<lparr>http_method = ''GET'', url = ''http://testserver/error'', path = ''/error''\<rparr>
       (fastapi_route error_endpoint) (init_state 0)))) = Some 100"
proof -
  have a: "counters_ok (init_state 0)"
    by (simp add: counters_ok_def init_state_def)
  have b: "rates_in_range (init_state 0)"
    by (simp add: rates_in_range_def init_state_def)
  note c = error_handler(1) and d = error_handler(3)
  from middleware_keeps_counters_sane [OF a b c d,
      of "\<lparr>http_method = ''GET'', url = ''http://testserver/error'', path = ''/error''\<rparr>"]
  show ?thesis
    using a b c d by (simp add: error_request_alone)
qed

end
